theory Spec2Isabelle
  imports Main "HOL-Library.Word"
begin

section \<open>Python values, exceptions and generators\<close>

text \<open>
  The two generators of \<^verbatim>\<open>impresso_commons/utils/s3.py\<close> that read a
  \<^verbatim>\<open>jsonl.bz2\<close> archive, \<^verbatim>\<open>read_jsonlines\<close> and \<^verbatim>\<open>readtext_jsonlines\<close>,
  are embedded here.  A Python \<^verbatim>\<open>bytes\<close> object is a list of 8-bit words, a Python
  \<^verbatim>\<open>str\<close> is a \<^typ>\<open>string\<close> (one \<^typ>\<open>char\<close> for each character of the
  \<^verbatim>\<open>str\<close>; the code only compares characters with the newline and keys with
  fixed ASCII names, and only asks whether a length is zero).
\<close>

type_synonym bytes = "8 word list"

text \<open>
  The exceptions that can leave the two generators.  None of them is caught there
  (the \<^verbatim>\<open>try ... except Exception: raise\<close> of \<^verbatim>\<open>get_s3_resource\<close> re-raises).
  \<^verbatim>\<open>KeyError\<close> carries the missing key.
\<close>

datatype error =
    KeyError string
  | TypeError
  | JSONDecodeError
  | OSError
  | UnicodeDecodeError
  | ClientError

text \<open>
  The values \<^verbatim>\<open>json.loads\<close> returns: \<^verbatim>\<open>None\<close>, \<^verbatim>\<open>bool\<close>, \<^verbatim>\<open>int\<close>,
  \<^verbatim>\<open>float\<close> (its 64 bits), \<^verbatim>\<open>str\<close>, \<^verbatim>\<open>list\<close> and \<^verbatim>\<open>dict\<close>.  A \<^verbatim>\<open>dict\<close> keeps
  its keys in insertion order, so it is an association list; in a Python \<^verbatim>\<open>dict\<close>
  the keys are distinct (\<open>dict_ok\<close> below).
\<close>

datatype json =
    JNull
  | JBool bool
  | JInt int
  | JFloat "64 word"
  | JStr string
  | JList "json list"
  | JDict "(string \<times> json) list"

definition dict_ok :: "(string \<times> json) list \<Rightarrow> bool" where
  "dict_ok d \<longleftrightarrow> distinct (map fst d)"

text \<open>\<^verbatim>\<open>len(x)\<close>: defined on \<^verbatim>\<open>str\<close>, \<^verbatim>\<open>list\<close> and \<^verbatim>\<open>dict\<close>, a \<^verbatim>\<open>TypeError\<close> otherwise.\<close>

fun py_len :: "json \<Rightarrow> error + nat" where
  "py_len (JStr s) = Inr (length s)"
| "py_len (JList xs) = Inr (length xs)"
| "py_len (JDict d) = Inr (length d)"
| "py_len JNull = Inl TypeError"
| "py_len (JBool b) = Inl TypeError"
| "py_len (JInt i) = Inl TypeError"
| "py_len (JFloat f) = Inl TypeError"

text \<open>
  A generator is modelled by what its consumer sees when it is read to the end: the
  values yielded, in order, and then either a normal end (\<open>None\<close>) or the exception
  that ended it (\<open>Some e\<close>).  Nothing is yielded after an exception.
\<close>

type_synonym 'a generator = "'a list \<times> error option"

definition raise :: "error \<Rightarrow> 'a generator" where
  "raise e = ([], Some e)"

definition yield :: "'a \<Rightarrow> 'a generator \<Rightarrow> 'a generator" where
  "yield x g = (x # fst g, snd g)"

section \<open>What the module takes from outside\<close>

text \<open>
  The process environment, the object store behind \<^verbatim>\<open>boto3\<close>, \<^verbatim>\<open>bz2\<close>, the UTF-8
  codec and the \<^verbatim>\<open>json\<close> module are not code of this module.  They are the fields of
  a \<open>world\<close>; every theorem below holds for every world, unless it says otherwise.
\<close>

record s3resource =
  aws_secret_access_key :: string
  aws_access_key_id :: string
  endpoint_url :: string

record world =
  environ :: "string \<rightharpoonup> string"
    \<comment> \<open>\<^verbatim>\<open>os.environ\<close>\<close>
  s3_object_read :: "s3resource \<Rightarrow> string \<Rightarrow> string \<Rightarrow> error + bytes"
    \<comment> \<open>\<^verbatim>\<open>s3r.Object(bucket_name, key_name).get()['Body'].read()\<close>\<close>
  bz2_decompress :: "bytes \<Rightarrow> error + bytes"
    \<comment> \<open>\<^verbatim>\<open>bz2.decompress(data)\<close>\<close>
  decode_utf8 :: "bytes \<Rightarrow> error + string"
    \<comment> \<open>\<^verbatim>\<open>.decode('utf-8')\<close>\<close>
  json_loads :: "string \<Rightarrow> error + json"
    \<comment> \<open>\<^verbatim>\<open>json.loads(line)\<close>\<close>
  json_dumps :: "json \<Rightarrow> string"
    \<comment> \<open>\<^verbatim>\<open>json.dumps(article_reduced)\<close>\<close>

text \<open>\<^verbatim>\<open>os.environ[name]\<close> raises \<^verbatim>\<open>KeyError(name)\<close> when the variable is not set.\<close>

definition environ_getitem :: "world \<Rightarrow> string \<Rightarrow> error + string" where
  "environ_getitem W name =
     (case environ W name of None \<Rightarrow> Inl (KeyError name) | Some v \<Rightarrow> Inr v)"

text \<open>
  \<^verbatim>\<open>json.loads(json.dumps(j)) == j\<close>: what "parsing the emitted string" gives, for a
  library that reads back what it wrote.
\<close>

definition json_roundtrip :: "world \<Rightarrow> json \<Rightarrow> bool" where
  "json_roundtrip W j \<longleftrightarrow> json_loads W (json_dumps W j) = Inr j"

section \<open>The source functions\<close>

subsection \<open>\<^verbatim>\<open>get_s3_resource\<close>\<close>

definition default_host_url :: string where
  "default_host_url = ''https://os.zhdk.cloud.switch.ch/''"

text \<open>
  \<^verbatim>\<open>host_url\<close> is \<open>None\<close> for Python's \<^verbatim>\<open>None\<close>; the two generators call
  \<^verbatim>\<open>get_s3_resource()\<close>, that is with the default.
\<close>

definition get_s3_resource :: "world \<Rightarrow> string option \<Rightarrow> error + s3resource" where
  "get_s3_resource W host_url =
     (case (case host_url of
              None \<Rightarrow> environ_getitem W ''SE_HOST_URL''
            | Some h \<Rightarrow> Inr h) of
        Inl e \<Rightarrow> Inl e
      | Inr host \<Rightarrow>
          (case environ_getitem W ''SE_ACCESS_KEY'' of
             Inl e \<Rightarrow> Inl e
           | Inr access_key \<Rightarrow>
               (case environ_getitem W ''SE_SECRET_KEY'' of
                  Inl e \<Rightarrow> Inl e
                | Inr secret_key \<Rightarrow>
                    Inr \<lparr>aws_secret_access_key = secret_key,
                         aws_access_key_id = access_key,
                         endpoint_url = host\<rparr>)))"

subsection \<open>\<^verbatim>\<open>text.split('\n')\<close>\<close>

text \<open>
  \<^verbatim>\<open>str.split\<close> with a separator cuts at every occurrence of it and keeps empty
  pieces: a text with \<open>n\<close> newlines gives \<open>n + 1\<close> pieces.  \<open>split_from cur rest\<close>
  scans \<open>rest\<close> with \<open>cur\<close> the piece read so far.
\<close>

fun split_from :: "string \<Rightarrow> string \<Rightarrow> string list" where
  "split_from cur [] = [cur]"
| "split_from cur (c # cs) =
     (if c = CHR 0x0A then cur # split_from [] cs else split_from (cur @ [c]) cs)"

definition str_split_nl :: "string \<Rightarrow> string list" where
  "str_split_nl text = split_from [] text"

text \<open>\<^verbatim>\<open>'\n'.join(ls)\<close>, to say what "newline-separated lines" are.\<close>

fun str_join_nl :: "string list \<Rightarrow> string" where
  "str_join_nl [] = []"
| "str_join_nl [l] = l"
| "str_join_nl (l # l' # ls) = l @ CHR 0x0A # str_join_nl (l' # ls)"

subsection \<open>The first four statements of both generators\<close>

text \<open>
  \<^verbatim>\<open>
  s3r = get_s3_resource()
  body = s3r.Object(bucket_name, key_name).get()['Body']
  data = body.read()
  text = bz2.decompress(data).decode('utf-8')
  \<close>
  \<open>fetch_data\<close> is the first three, \<open>fetch_text\<close> all four.
\<close>

definition fetch_data :: "world \<Rightarrow> string \<Rightarrow> string \<Rightarrow> error + bytes" where
  "fetch_data W key_name bucket_name =
     (case get_s3_resource W (Some default_host_url) of
        Inl e \<Rightarrow> Inl e
      | Inr s3r \<Rightarrow> s3_object_read W s3r bucket_name key_name)"

definition fetch_text :: "world \<Rightarrow> string \<Rightarrow> string \<Rightarrow> error + string" where
  "fetch_text W key_name bucket_name =
     (case fetch_data W key_name bucket_name of
        Inl e \<Rightarrow> Inl e
      | Inr data \<Rightarrow>
          (case bz2_decompress W data of
             Inl e \<Rightarrow> Inl e
           | Inr raw \<Rightarrow> decode_utf8 W raw))"

subsection \<open>\<^verbatim>\<open>read_jsonlines\<close>\<close>

text \<open>
  \<^verbatim>\<open>
  for line in text.split('\n'):
      if line != '':
          yield line
  \<close>
\<close>

fun read_loop :: "string list \<Rightarrow> string generator" where
  "read_loop [] = ([], None)"
| "read_loop (line # rest) =
     (if line \<noteq> '''' then yield line (read_loop rest) else read_loop rest)"

definition read_jsonlines :: "world \<Rightarrow> string \<Rightarrow> string \<Rightarrow> string generator" where
  "read_jsonlines W key_name bucket_name =
     (case fetch_text W key_name bucket_name of
        Inl e \<Rightarrow> raise e
      | Inr text \<Rightarrow> read_loop (str_split_nl text))"

subsection \<open>\<^verbatim>\<open>readtext_jsonlines\<close>\<close>

text \<open>The condition of the comprehension: the eight keys that are kept.\<close>

definition kept_key :: "string \<Rightarrow> bool" where
  "kept_key k \<longleftrightarrow>
     k = ''id'' \<or> k = ''s3v'' \<or> k = ''ts'' \<or> k = ''ft'' \<or> k = ''tp'' \<or> k = ''pp''
     \<or> k = ''lg'' \<or> k = ''t''"

text \<open>
  \<^verbatim>\<open>{k: article_json[k] for k in article_json if k == "id" or ...}\<close>: the keys of the
  dict in their order; each kept key is stored in the new dict with the value looked
  up in the old one.  Storing under a key that is already there replaces its value in
  place, storing under a new key appends it.
\<close>

fun dict_setitem :: "(string \<times> json) list \<Rightarrow> string \<Rightarrow> json \<Rightarrow> (string \<times> json) list" where
  "dict_setitem [] k v = [(k, v)]"
| "dict_setitem (p # ps) k v = (if fst p = k then (k, v) # ps else p # dict_setitem ps k v)"

fun reduce_keys :: "(string \<times> json) list \<Rightarrow> string list \<Rightarrow> (string \<times> json) list
    \<Rightarrow> (string \<times> json) list" where
  "reduce_keys article_json [] acc = acc"
| "reduce_keys article_json (k # ks) acc =
     (if kept_key k
      then (case map_of article_json k of
              Some v \<Rightarrow> reduce_keys article_json ks (dict_setitem acc k v)
            | None \<Rightarrow> reduce_keys article_json ks acc)
      else reduce_keys article_json ks acc)"

definition article_reduced :: "(string \<times> json) list \<Rightarrow> (string \<times> json) list" where
  "article_reduced article_json = reduce_keys article_json (map fst article_json) []"

text \<open>
  \<^verbatim>\<open>
  for line in text.split('\n'):
      if line != '':
          article_json = json.loads(line)
          text = article_json["ft"]
          if len(text) != 0:
              article_reduced = {...}
              yield json.dumps(article_reduced)
  \<close>
  \<^verbatim>\<open>article_json["ft"]\<close> is a \<^verbatim>\<open>KeyError\<close> on a dict without the key and a
  \<^verbatim>\<open>TypeError\<close> on every value that is not a dict (a list or a string is indexed by
  integers, the others are not subscriptable).  Rebinding \<^verbatim>\<open>text\<close> inside the loop
  does not change the list the loop runs over.
\<close>

fun readtext_loop :: "world \<Rightarrow> string list \<Rightarrow> string generator" where
  "readtext_loop W [] = ([], None)"
| "readtext_loop W (line # rest) =
     (if line \<noteq> '''' then
        (case json_loads W line of
           Inl e \<Rightarrow> raise e
         | Inr article_json \<Rightarrow>
             (case article_json of
                JDict d \<Rightarrow>
                  (case map_of d ''ft'' of
                     None \<Rightarrow> raise (KeyError ''ft'')
                   | Some txt \<Rightarrow>
                       (case py_len txt of
                          Inl e \<Rightarrow> raise e
                        | Inr n \<Rightarrow>
                            if n \<noteq> 0
                            then yield (json_dumps W (JDict (article_reduced d)))
                                   (readtext_loop W rest)
                            else readtext_loop W rest))
              | _ \<Rightarrow> raise TypeError))
      else readtext_loop W rest)"

definition readtext_jsonlines :: "world \<Rightarrow> string \<Rightarrow> string \<Rightarrow> string generator" where
  "readtext_jsonlines W key_name bucket_name =
     (case fetch_text W key_name bucket_name of
        Inl e \<Rightarrow> raise e
      | Inr text \<Rightarrow> readtext_loop W (str_split_nl text))"

section \<open>Notions used to state the properties\<close>

text \<open>The \<^verbatim>\<open>ft\<close> field of the record on a line, when the line parses to a dict that has one.\<close>

definition line_ft :: "world \<Rightarrow> string \<Rightarrow> json option" where
  "line_ft W line =
     (case json_loads W line of
        Inr (JDict d) \<Rightarrow> map_of d ''ft''
      | _ \<Rightarrow> None)"

text \<open>The line's \<^verbatim>\<open>ft\<close> is a string, and the string is not empty.\<close>

definition ft_nonempty_str :: "world \<Rightarrow> string \<Rightarrow> bool" where
  "ft_nonempty_str W line =
     (case line_ft W line of
        Some (JStr s) \<Rightarrow> s \<noteq> ''''
      | _ \<Rightarrow> False)"

text \<open>The line's \<^verbatim>\<open>ft\<close> is a string.\<close>

definition ft_is_str :: "world \<Rightarrow> string \<Rightarrow> bool" where
  "ft_is_str W line =
     (case line_ft W line of
        Some (JStr s) \<Rightarrow> True
      | _ \<Rightarrow> False)"

text \<open>The string emitted for a line that parses to a dict: its reduced record, serialised.\<close>

definition projected :: "world \<Rightarrow> string \<Rightarrow> string" where
  "projected W line =
     (case json_loads W line of
        Inr (JDict d) \<Rightarrow> json_dumps W (JDict (article_reduced d))
      | _ \<Rightarrow> '''')"



text \<open>
  Every bz2 stream starts with the four bytes \<^verbatim>\<open>BZh1\<close> to \<^verbatim>\<open>BZh9\<close>; bytes that do
  not are not a compressed stream.
\<close>

definition has_bz2_header :: "bytes \<Rightarrow> bool" where
  "has_bz2_header data \<longleftrightarrow>
     4 \<le> length data \<and> take 3 data = [0x42, 0x5A, 0x68]
     \<and> 0x31 \<le> data ! 3 \<and> data ! 3 \<le> 0x39"

section \<open>A concrete world for the examples\<close>

text \<open>
  Six small archives.  Each \<open>blob_\<close> is the output of \<^verbatim>\<open>bz2.compress\<close> on the
  UTF-8 bytes of the \<open>text_\<close> above it.
\<close>

definition text_articles :: string where
  \<open>text_articles =
     ''{"id":"1","ft":"hello world","tp":"article"}\<newline>{"id":"2","ft":"","tp":"ad"}\<newline>''\<close>

definition blob_articles :: bytes where
  "blob_articles =
     [0x42, 0x5A, 0x68, 0x39, 0x31, 0x41, 0x59, 0x26, 0x53, 0x59, 0x22, 0x97, 0xB6, 0x02,
      0x00, 0x00, 0x23, 0x59, 0x80, 0x00, 0x10, 0x50, 0x04, 0x30, 0x10, 0x2F, 0x64, 0xD4,
      0x8A, 0x20, 0x00, 0x54, 0x35, 0x00, 0x34, 0x34, 0x03, 0xD4, 0x12, 0x85, 0x34, 0xCD,
      0x46, 0x9A, 0x34, 0xDA, 0x9E, 0xA4, 0x99, 0x77, 0x7B, 0x5E, 0x84, 0x31, 0xA1, 0xB6,
      0x2E, 0x2C, 0x8C, 0x6F, 0xE5, 0x84, 0x4D, 0x42, 0x99, 0x68, 0xA2, 0x72, 0xA7, 0xD0,
      0xF5, 0x26, 0xA3, 0x68, 0x45, 0x10, 0x12, 0x1C, 0x3E, 0x2E, 0xE4, 0x8A, 0x70, 0xA1,
      0x20, 0x45, 0x2F, 0x6C, 0x04]"

definition text_plain :: string where
  \<open>text_plain =
     ''{"a":1}\<newline>\<newline>{"a":2}\<newline>''\<close>

definition blob_plain :: bytes where
  "blob_plain =
     [0x42, 0x5A, 0x68, 0x39, 0x31, 0x41, 0x59, 0x26, 0x53, 0x59, 0x0D, 0x33, 0x70, 0x95,
      0x00, 0x00, 0x06, 0xD9, 0x80, 0x00, 0x10, 0x10, 0x00, 0x30, 0x10, 0x20, 0x00, 0x00,
      0x0A, 0x20, 0x00, 0x21, 0x28, 0x07, 0xA8, 0x43, 0x02, 0x12, 0x78, 0x44, 0xD0, 0xC3,
      0x9F, 0x17, 0x72, 0x45, 0x38, 0x50, 0x90, 0x0D, 0x33, 0x70, 0x95]"

definition text_noft :: string where
  \<open>text_noft =
     ''{"id":"x"}\<newline>{"id":"1","ft":"hello world","tp":"article"}\<newline>''\<close>

definition blob_noft :: bytes where
  "blob_noft =
     [0x42, 0x5A, 0x68, 0x39, 0x31, 0x41, 0x59, 0x26, 0x53, 0x59, 0xC6, 0x39, 0xE9, 0x78,
      0x00, 0x00, 0x1A, 0xD9, 0x80, 0x00, 0x10, 0x50, 0x04, 0x20, 0x10, 0x2F, 0x64, 0xD4,
      0xCA, 0x20, 0x00, 0x40, 0xD5, 0x3F, 0x49, 0x1E, 0xA6, 0x9E, 0xA3, 0x4C, 0x9B, 0x4F,
      0x54, 0x28, 0xD1, 0x90, 0x34, 0x69, 0x91, 0xA2, 0x17, 0x78, 0xA9, 0xC6, 0x5A, 0x90,
      0x50, 0x66, 0x57, 0xB0, 0x03, 0x32, 0x41, 0x9A, 0x08, 0x23, 0x53, 0xCB, 0x84, 0xF8,
      0xD2, 0xAF, 0x48, 0xA0, 0x47, 0xE2, 0xEE, 0x48, 0xA7, 0x0A, 0x12, 0x18, 0xC7, 0x3D,
      0x2F, 0x00]"

definition text_badjson :: string where
  \<open>text_badjson =
     ''{"id":"1","ft":"hello world","tp":"article"}\<newline>{"id":\<newline>{"id":"2","ft":"","tp":"ad"}\<newline>''\<close>

definition blob_badjson :: bytes where
  "blob_badjson =
     [0x42, 0x5A, 0x68, 0x39, 0x31, 0x41, 0x59, 0x26, 0x53, 0x59, 0x27, 0x5F, 0xD7, 0x3C,
      0x00, 0x00, 0x26, 0xD9, 0x80, 0x00, 0x10, 0x50, 0x04, 0x30, 0x10, 0x2F, 0x64, 0xD4,
      0x8A, 0x20, 0x00, 0x54, 0x35, 0x00, 0x34, 0x34, 0x03, 0xD4, 0x18, 0x94, 0xC6, 0x93,
      0x26, 0x8D, 0x36, 0xA6, 0x9B, 0x0F, 0x95, 0x5A, 0xBD, 0xE4, 0x14, 0x21, 0xA0, 0xDC,
      0x0B, 0x85, 0xB2, 0xC3, 0xCA, 0x39, 0x27, 0x50, 0x8E, 0x5A, 0x24, 0x6C, 0x8F, 0xD1,
      0xCD, 0x01, 0x90, 0xDA, 0x11, 0x44, 0x04, 0xB1, 0xC3, 0xE2, 0xEE, 0x48, 0xA7, 0x0A,
      0x12, 0x04, 0xEB, 0xFA, 0xE7, 0x80]"

definition text_listft :: string where
  \<open>text_listft =
     ''{"ft":["a"]}\<newline>''\<close>

definition blob_listft :: bytes where
  "blob_listft =
     [0x42, 0x5A, 0x68, 0x39, 0x31, 0x41, 0x59, 0x26, 0x53, 0x59, 0x36, 0x1C, 0xDA, 0xF6,
      0x00, 0x00, 0x05, 0xDB, 0x80, 0x00, 0x10, 0x10, 0x00, 0x00, 0x10, 0x00, 0x0A, 0x21,
      0x00, 0x04, 0x0A, 0x20, 0x00, 0x22, 0x00, 0xC2, 0x10, 0x03, 0x06, 0x88, 0x60, 0xD4,
      0xB4, 0xFC, 0x5D, 0xC9, 0x14, 0xE1, 0x42, 0x40, 0xD8, 0x73, 0x6B, 0xD8]"

definition text_noft_badjson :: string where
  \<open>text_noft_badjson =
     ''{"id":"x"}\<newline>{"id":\<newline>''\<close>

definition blob_noft_badjson :: bytes where
  "blob_noft_badjson =
     [0x42, 0x5A, 0x68, 0x39, 0x31, 0x41, 0x59, 0x26, 0x53, 0x59, 0xAA, 0xD5, 0x21, 0x8B,
      0x00, 0x00, 0x08, 0x59, 0x80, 0x00, 0x10, 0x10, 0x00, 0x00, 0x10, 0x04, 0x20, 0x00,
      0x4A, 0x20, 0x00, 0x21, 0x28, 0x07, 0xA8, 0x43, 0x02, 0x1B, 0xC1, 0x29, 0xE1, 0x26,
      0x12, 0x7C, 0x5D, 0xC9, 0x14, 0xE1, 0x42, 0x42, 0xAB, 0x54, 0x86, 0x2C]"

text \<open>The bytes of an ASCII string, and the text of ASCII bytes.\<close>

definition ascii_bytes :: "string \<Rightarrow> bytes" where
  "ascii_bytes s = map of_char s"

definition ascii_text :: "bytes \<Rightarrow> string" where
  "ascii_text raw = map (\<lambda>b. char_of (unat b)) raw"

definition bucket0 :: string where
  "bucket0 = ''test-bucket''"

definition key_articles :: string where
  "key_articles = ''ABC-1900-01-01-a.jsonl.bz2''"

definition key_plain :: string where
  "key_plain = ''plain.jsonl.bz2''"

definition key_noft :: string where
  "key_noft = ''noft.jsonl.bz2''"

definition key_badjson :: string where
  "key_badjson = ''badjson.jsonl.bz2''"

definition key_listft :: string where
  "key_listft = ''listft.jsonl.bz2''"

definition key_uncompressed :: string where
  "key_uncompressed = ''uncompressed.jsonl''"

definition key_noft_badjson :: string where
  "key_noft_badjson = ''noft-badjson.jsonl.bz2''"

definition key_empty :: string where
  "key_empty = ''empty.jsonl.bz2''"

text \<open>
  The bucket \<^verbatim>\<open>test-bucket\<close> holds the six archives, the text of the first
  one stored as it is, without compression, and an object of zero bytes.
\<close>

definition demo_object_read :: "s3resource \<Rightarrow> string \<Rightarrow> string \<Rightarrow> error + bytes" where
  "demo_object_read s3r bucket_name key_name =
     (if bucket_name \<noteq> bucket0 then Inl ClientError
      else if key_name = key_articles then Inr blob_articles
      else if key_name = key_plain then Inr blob_plain
      else if key_name = key_noft then Inr blob_noft
      else if key_name = key_badjson then Inr blob_badjson
      else if key_name = key_listft then Inr blob_listft
      else if key_name = key_uncompressed then Inr (ascii_bytes text_articles)
      else if key_name = key_noft_badjson then Inr blob_noft_badjson
      else if key_name = key_empty then Inr []
      else Inl ClientError)"

text \<open>
  \<^verbatim>\<open>bz2.decompress\<close> on the blobs above and on the empty input (which it accepts);
  every other input of the examples is not a bz2 stream, and
  \<^verbatim>\<open>OSError('Invalid data stream')\<close> is what Python raises on it.
\<close>

definition demo_decompress :: "bytes \<Rightarrow> error + bytes" where
  "demo_decompress data =
     (if data = [] then Inr []
      else if data = blob_articles then Inr (ascii_bytes text_articles)
      else if data = blob_plain then Inr (ascii_bytes text_plain)
      else if data = blob_noft then Inr (ascii_bytes text_noft)
      else if data = blob_badjson then Inr (ascii_bytes text_badjson)
      else if data = blob_listft then Inr (ascii_bytes text_listft)
      else if data = blob_noft_badjson then Inr (ascii_bytes text_noft_badjson)
      else Inl OSError)"

text \<open>UTF-8 decoding of bytes below 128 (the examples are ASCII).\<close>

definition demo_decode :: "bytes \<Rightarrow> error + string" where
  "demo_decode raw =
     (if \<forall>b \<in> set raw. b < 0x80 then Inr (ascii_text raw) else Inl UnicodeDecodeError)"

definition record_article1 :: json where
  "record_article1 =
     JDict [(''id'', JStr ''1''), (''ft'', JStr ''hello world''), (''tp'', JStr ''article'')]"

definition record_article2 :: json where
  "record_article2 = JDict [(''id'', JStr ''2''), (''ft'', JStr ''''), (''tp'', JStr ''ad'')]"

definition record_listft :: json where
  "record_listft = JDict [(''ft'', JList [JStr ''a''])]"

definition line_article1 :: string where
  \<open>line_article1 = ''{"id":"1","ft":"hello world","tp":"article"}''\<close>

definition line_article2 :: string where
  \<open>line_article2 = ''{"id":"2","ft":"","tp":"ad"}''\<close>

definition dumped_article1 :: string where
  \<open>dumped_article1 = ''{"id": "1", "ft": "hello world", "tp": "article"}''\<close>

text \<open>\<^verbatim>\<open>json.loads\<close> on the lines of the examples; the line \<^verbatim>\<open>{"id":\<close> is not JSON.\<close>

definition demo_loads :: "string \<Rightarrow> error + json" where
  \<open>demo_loads line =
     (if line = line_article1 then Inr record_article1
      else if line = line_article2 then Inr record_article2
      else if line = dumped_article1 then Inr record_article1
      else if line = ''{"a":1}'' then Inr (JDict [(''a'', JInt 1)])
      else if line = ''{"a":2}'' then Inr (JDict [(''a'', JInt 2)])
      else if line = ''{"id":"x"}'' then Inr (JDict [(''id'', JStr ''x'')])
      else if line = ''{"ft":["a"]}'' then Inr record_listft
      else if line = ''{"ft": ["a"]}'' then Inr record_listft
      else Inl JSONDecodeError)\<close>

text \<open>\<^verbatim>\<open>json.dumps\<close> on the two records the examples emit.\<close>

definition demo_dumps :: "json \<Rightarrow> string" where
  \<open>demo_dumps j =
     (if j = record_article1 then dumped_article1
      else if j = record_listft then ''{"ft": ["a"]}''
      else ''null'')\<close>

definition demo_world :: world where
  "demo_world =
     \<lparr>environ = map_of [(''SE_ACCESS_KEY'', ''access''), (''SE_SECRET_KEY'', ''secret'')],
      s3_object_read = demo_object_read,
      bz2_decompress = demo_decompress,
      decode_utf8 = demo_decode,
      json_loads = demo_loads,
      json_dumps = demo_dumps\<rparr>"

section \<open>Splitting and joining lines\<close>

lemma split_from_shift:
  "CHR 0x0A \<notin> set l \<Longrightarrow> split_from cur (l @ rest) = split_from (cur @ l) rest"
  by (induction l arbitrary: cur) auto

lemma split_from_join:
  "\<forall>l \<in> set ls. CHR 0x0A \<notin> set l \<Longrightarrow> ls \<noteq> [] \<Longrightarrow>
   split_from cur (str_join_nl ls) = (cur @ hd ls) # tl ls"
proof (induction ls arbitrary: cur rule: str_join_nl.induct)
  case 1
  then show ?case by simp
next
  case (2 l)
  then show ?case using split_from_shift [of l cur "[]"] by simp
next
  case (3 l l' ls)
  have "split_from cur (l @ CHR 0x0A # str_join_nl (l' # ls))
        = split_from (cur @ l) (CHR 0x0A # str_join_nl (l' # ls))"
    using 3(2) by (simp add: split_from_shift)
  also have "\<dots> = (cur @ l) # split_from [] (str_join_nl (l' # ls))"
    by simp
  also have "split_from [] (str_join_nl (l' # ls)) = l' # ls"
    using 3(1) [of "[]"] 3(2) by simp
  finally show ?case by simp
qed

text \<open>Splitting the join of lines that hold no newline gives the lines back.\<close>

lemma str_split_join:
  "\<forall>l \<in> set ls. CHR 0x0A \<notin> set l \<Longrightarrow> ls \<noteq> [] \<Longrightarrow> str_split_nl (str_join_nl ls) = ls"
  by (simp add: str_split_nl_def split_from_join)

lemma split_from_not_Nil: "split_from cur t \<noteq> []"
  by (induction cur t rule: split_from.induct) auto

lemma split_from_no_newline:
  "CHR 0x0A \<notin> set cur \<Longrightarrow> l \<in> set (split_from cur t) \<Longrightarrow> CHR 0x0A \<notin> set l"
  by (induction cur t rule: split_from.induct) (auto split: if_splits)

text \<open>Joining the pieces of a text gives the text back: nothing is lost by the split.\<close>

lemma str_join_split_from: "str_join_nl (split_from cur t) = cur @ t"
proof (induction cur t rule: split_from.induct)
  case (1 cur)
  then show ?case by simp
next
  case (2 cur c cs)
  show ?case
  proof (cases "c = CHR 0x0A")
    case True
    obtain p ps where ps: "split_from [] cs = p # ps"
      using split_from_not_Nil [of "[]" cs] by (cases "split_from [] cs") auto
    with True 2 show ?thesis by simp
  next
    case False
    with 2 show ?thesis by simp
  qed
qed

lemma read_loop_filter: "read_loop ls = (filter (\<lambda>l. l \<noteq> '''') ls, None)"
  by (induction ls) (simp_all add: yield_def)

section \<open>The example world, evaluated\<close>

lemma char_of_unat_of_char: "char_of (unat (of_char c :: 8 word)) = c"
proof -
  have "(of_char c :: 8 word) = of_nat (of_char c)"
    by (simp only: of_nat_of_char)
  then have "unat (of_char c :: 8 word) = (of_char c :: nat) mod 256"
    by (simp only: unat_of_nat) simp
  then show ?thesis by simp
qed

lemma ascii_text_bytes: "ascii_text (ascii_bytes s) = s"
  by (simp add: ascii_text_def ascii_bytes_def comp_def char_of_unat_of_char)

lemma demo_decode_ascii:
  "\<forall>b \<in> set (ascii_bytes s). b < 0x80 \<Longrightarrow> demo_decode (ascii_bytes s) = Inr s"
  by (simp add: demo_decode_def ascii_text_bytes)

lemma demo_resource:
  "get_s3_resource demo_world (Some default_host_url) =
     Inr \<lparr>aws_secret_access_key = ''secret'', aws_access_key_id = ''access'',
          endpoint_url = default_host_url\<rparr>"
  by (simp add: get_s3_resource_def environ_getitem_def demo_world_def)

lemma demo_fetch_data:
  "fetch_data demo_world key_name bucket_name =
     demo_object_read \<lparr>aws_secret_access_key = ''secret'', aws_access_key_id = ''access'',
          endpoint_url = default_host_url\<rparr> bucket_name key_name"
  by (simp add: fetch_data_def demo_resource) (simp add: demo_world_def)

lemma demo_decompress_articles: "demo_decompress blob_articles = Inr (ascii_bytes text_articles)"
  by (simp add: demo_decompress_def) (simp add: blob_articles_def)

lemma demo_decompress_plain: "demo_decompress blob_plain = Inr (ascii_bytes text_plain)"
  by (simp add: demo_decompress_def) (simp add: blob_articles_def blob_plain_def)

lemma demo_decode_articles: "demo_decode (ascii_bytes text_articles) = Inr text_articles"
  by (rule demo_decode_ascii) (simp add: ascii_bytes_def text_articles_def)

lemma demo_decode_plain: "demo_decode (ascii_bytes text_plain) = Inr text_plain"
  by (rule demo_decode_ascii) (simp add: ascii_bytes_def text_plain_def)

lemma demo_fetch_text_articles: "fetch_text demo_world key_articles bucket0 = Inr text_articles"
  by (simp add: fetch_text_def demo_fetch_data demo_object_read_def)
     (simp add: demo_world_def demo_decompress_articles demo_decode_articles)

lemma demo_fetch_text_plain: "fetch_text demo_world key_plain bucket0 = Inr text_plain"
  by (simp add: fetch_text_def demo_fetch_data demo_object_read_def key_plain_def key_articles_def)
     (simp add: demo_world_def demo_decompress_plain demo_decode_plain)

lemma split_articles: "str_split_nl text_articles = [line_article1, line_article2, '''']"
  by (simp add: str_split_nl_def text_articles_def line_article1_def line_article2_def)

lemma join_plain: \<open>str_join_nl [''{"a":1}'', '''', ''{"a":2}'', ''''] = text_plain\<close>
  by (simp add: text_plain_def)

section \<open>The reduced record\<close>

lemma map_of_dict_setitem: "map_of (dict_setitem d k v) = (map_of d)(k \<mapsto> v)"
  by (induction d) (auto simp: fun_eq_iff)

lemma keys_dict_setitem: "fst ` set (dict_setitem d k v) = insert k (fst ` set d)"
  by (induction d) auto

lemma dict_setitem_new: "k \<notin> fst ` set d \<Longrightarrow> dict_setitem d k v = d @ [(k, v)]"
  by (induction d) auto

lemma dict_ok_setitem: "dict_ok d \<Longrightarrow> dict_ok (dict_setitem d k v)"
proof (induction d)
  case Nil
  then show ?case by (simp add: dict_ok_def)
next
  case (Cons p ps)
  have "fst ` set (dict_setitem ps k v) = insert k (fst ` set ps)"
    by (rule keys_dict_setitem)
  with Cons show ?case
    by (auto simp: dict_ok_def)
qed

lemma map_of_reduce_keys:
  "map_of (reduce_keys d ks acc) k =
     (if k \<in> set ks \<and> kept_key k \<and> map_of d k \<noteq> None then map_of d k else map_of acc k)"
  by (induction d ks acc rule: reduce_keys.induct)
     (auto simp: map_of_dict_setitem split: option.splits)

lemma keys_reduce_keys:
  "fst ` set (reduce_keys d ks acc) \<subseteq> fst ` set acc \<union> {k \<in> set ks. kept_key k}"
proof (induction d ks acc rule: reduce_keys.induct)
  case (1 d acc)
  then show ?case by simp
next
  case (2 d k ks acc)
  show ?case
  proof (cases "kept_key k")
    case False
    with 2 show ?thesis by auto
  next
    case True
    show ?thesis
    proof (cases "map_of d k")
      case None
      with True 2 show ?thesis by auto
    next
      case (Some v)
      from 2(2) [OF True Some]
      have "fst ` set (reduce_keys d ks (dict_setitem acc k v))
            \<subseteq> fst ` set (dict_setitem acc k v) \<union> {k \<in> set ks. kept_key k}"
        by simp
      with True Some show ?thesis
        by (auto simp: keys_dict_setitem)
    qed
  qed
qed

lemma dict_ok_reduce_keys: "dict_ok acc \<Longrightarrow> dict_ok (reduce_keys d ks acc)"
  by (induction d ks acc rule: reduce_keys.induct)
     (auto simp: dict_ok_setitem split: option.splits)

text \<open>The reduced record holds a key exactly when it is kept and the record holds it,
  and with the record's value.\<close>

lemma map_of_article_reduced:
  "map_of (article_reduced d) k = (if kept_key k then map_of d k else None)"
proof -
  have "k \<notin> set (map fst d) \<Longrightarrow> map_of d k = None"
    by (simp add: map_of_eq_None_iff)
  then show ?thesis
    unfolding article_reduced_def map_of_reduce_keys by auto
qed

lemma keys_article_reduced: "fst ` set (article_reduced d) \<subseteq> {k. kept_key k}"
  using keys_reduce_keys [of d "map fst d" "[]"] by (auto simp: article_reduced_def)

lemma dict_ok_article_reduced: "dict_ok (article_reduced d)"
  unfolding article_reduced_def by (rule dict_ok_reduce_keys) (simp add: dict_ok_def)

lemma reduce_keys_filter:
  "distinct (map fst ps) \<Longrightarrow> fst ` set acc \<inter> fst ` set ps = {} \<Longrightarrow>
   \<forall>p \<in> set ps. map_of d (fst p) = Some (snd p) \<Longrightarrow>
   reduce_keys d (map fst ps) acc = acc @ filter (\<lambda>p. kept_key (fst p)) ps"
proof (induction ps arbitrary: acc)
  case Nil
  then show ?case by simp
next
  case (Cons p ps)
  obtain k v where p: "p = (k, v)" by (cases p)
  from Cons.prems p have k_new: "k \<notin> fst ` set acc" and k_once: "k \<notin> fst ` set ps"
    and look: "map_of d k = Some v"
    by auto
  show ?case
  proof (cases "kept_key k")
    case False
    with Cons p show ?thesis by auto
  next
    case True
    have "fst ` set (dict_setitem acc k v) \<inter> fst ` set ps = {}"
      using Cons.prems(2) k_once by (auto simp: keys_dict_setitem)
    with Cons have "reduce_keys d (map fst ps) (dict_setitem acc k v)
                    = dict_setitem acc k v @ filter (\<lambda>p. kept_key (fst p)) ps"
      by simp
    with True look p k_new show ?thesis
      by (simp add: dict_setitem_new)
  qed
qed

text \<open>On a dict (distinct keys) the comprehension is the filter of the items whose
  key is kept: the order of the keys is the order of the source record.\<close>

lemma article_reduced_filter:
  "dict_ok d \<Longrightarrow> article_reduced d = filter (\<lambda>p. kept_key (fst p)) d"
  unfolding article_reduced_def dict_ok_def
  using reduce_keys_filter [of d "[]" d] by simp

section \<open>The loop of \<^verbatim>\<open>readtext_jsonlines\<close>\<close>

lemma readtext_loop_append:
  "readtext_loop W (xs @ ys) =
     (case snd (readtext_loop W xs) of
        None \<Rightarrow> (fst (readtext_loop W xs) @ fst (readtext_loop W ys), snd (readtext_loop W ys))
      | Some e \<Rightarrow> readtext_loop W xs)"
proof (induction xs)
  case Nil
  then show ?case by simp
next
  case (Cons line rest)
  then show ?case
    by (cases "snd (readtext_loop W rest)")
       (auto simp: raise_def yield_def split: sum.splits json.splits option.splits)
qed

lemma readtext_loop_yielded:
  "s \<in> set (fst (readtext_loop W ls)) \<Longrightarrow>
   \<exists>line d txt n. line \<in> set ls \<and> line \<noteq> '''' \<and> json_loads W line = Inr (JDict d)
     \<and> map_of d ''ft'' = Some txt \<and> py_len txt = Inr n \<and> n \<noteq> 0
     \<and> s = json_dumps W (JDict (article_reduced d))"
proof (induction ls)
  case Nil
  then show ?case by simp
next
  case (Cons line rest)
  show ?case
  proof (cases "s \<in> set (fst (readtext_loop W rest))")
    case True
    with Cons.IH show ?thesis by (meson list.set_intros(2))
  next
    case False
    with Cons.prems show ?thesis
      by (auto simp: raise_def yield_def split: if_splits sum.splits json.splits option.splits)
  qed
qed

lemma readtext_loop_str_ft:
  "\<forall>line \<in> set ls. line \<noteq> '''' \<longrightarrow> ft_is_str W line \<Longrightarrow>
   readtext_loop W ls =
     (map (projected W) (filter (ft_nonempty_str W) (filter (\<lambda>l. l \<noteq> '''') ls)), None)"
proof (induction ls)
  case Nil
  then show ?case by simp
next
  case (Cons line rest)
  then have IH: "readtext_loop W rest =
     (map (projected W) (filter (ft_nonempty_str W) (filter (\<lambda>l. l \<noteq> '''') rest)), None)"
    by simp
  show ?case
  proof (cases "line = ''''")
    case True
    with IH show ?thesis by simp
  next
    case False
    with Cons.prems have "ft_is_str W line" by simp
    then obtain s where "line_ft W line = Some (JStr s)"
      by (auto simp: ft_is_str_def split: option.splits json.splits)
    then obtain d where "json_loads W line = Inr (JDict d)" "map_of d ''ft'' = Some (JStr s)"
      by (auto simp: line_ft_def split: sum.splits json.splits)
    with False IH show ?thesis
      by (simp add: ft_nonempty_str_def line_ft_def projected_def yield_def)
  qed
qed


lemma demo_decompress_noft: "demo_decompress blob_noft = Inr (ascii_bytes text_noft)"
  by (simp add: demo_decompress_def) (simp add: blob_articles_def blob_plain_def blob_noft_def)


lemma demo_decompress_listft: "demo_decompress blob_listft = Inr (ascii_bytes text_listft)"
  by (simp add: demo_decompress_def)
     (simp add: blob_articles_def blob_plain_def blob_noft_def blob_badjson_def blob_listft_def)

lemma demo_decompress_uncompressed: "demo_decompress (ascii_bytes text_articles) = Inl OSError"
  by (simp add: demo_decompress_def)
     (simp add: ascii_bytes_def text_articles_def blob_articles_def blob_plain_def
        blob_noft_def blob_badjson_def blob_listft_def blob_noft_badjson_def)

lemma demo_decode_noft: "demo_decode (ascii_bytes text_noft) = Inr text_noft"
  by (rule demo_decode_ascii) (simp add: ascii_bytes_def text_noft_def)


lemma demo_decode_listft: "demo_decode (ascii_bytes text_listft) = Inr text_listft"
  by (rule demo_decode_ascii) (simp add: ascii_bytes_def text_listft_def)

lemma demo_fetch_text_noft: "fetch_text demo_world key_noft bucket0 = Inr text_noft"
  by (simp add: fetch_text_def demo_fetch_data demo_object_read_def key_plain_def
        key_articles_def key_noft_def)
     (simp add: demo_world_def demo_decompress_noft demo_decode_noft)


lemma demo_fetch_text_listft: "fetch_text demo_world key_listft bucket0 = Inr text_listft"
  by (simp add: fetch_text_def demo_fetch_data demo_object_read_def key_plain_def
        key_articles_def key_noft_def key_badjson_def key_listft_def)
     (simp add: demo_world_def demo_decompress_listft demo_decode_listft)

lemma demo_fetch_data_articles: "fetch_data demo_world key_articles bucket0 = Inr blob_articles"
  by (simp add: demo_fetch_data demo_object_read_def)

lemma demo_fetch_data_uncompressed:
  "fetch_data demo_world key_uncompressed bucket0 = Inr (ascii_bytes text_articles)"
  by (simp add: demo_fetch_data demo_object_read_def key_plain_def key_articles_def
        key_noft_def key_badjson_def key_listft_def key_uncompressed_def)

lemma split_noft: \<open>str_split_nl text_noft = [''{"id":"x"}'', line_article1, '''']\<close>
  by (simp add: str_split_nl_def text_noft_def line_article1_def)


lemma split_listft: \<open>str_split_nl text_listft = [''{"ft":["a"]}'', '''']\<close>
  by (simp add: str_split_nl_def text_listft_def)

lemma demo_loads_article1: "json_loads demo_world line_article1 = Inr record_article1"
  by (simp add: demo_world_def demo_loads_def)

lemma demo_loads_article2: "json_loads demo_world line_article2 = Inr record_article2"
  by (simp add: demo_world_def demo_loads_def)
     (simp add: line_article1_def line_article2_def dumped_article1_def)

lemma line_article1_not_empty: "line_article1 \<noteq> []"
  by (simp add: line_article1_def)

lemma line_article2_not_empty: "line_article2 \<noteq> []"
  by (simp add: line_article2_def)

lemma demo_loads_dumped: "json_loads demo_world dumped_article1 = Inr record_article1"
  by (simp add: demo_world_def demo_loads_def)
     (simp add: line_article1_def line_article2_def dumped_article1_def)

lemma demo_loads_noft:
  \<open>json_loads demo_world ''{"id":"x"}'' = Inr (JDict [(''id'', JStr ''x'')])\<close>
  by (simp add: demo_world_def demo_loads_def line_article1_def line_article2_def
        dumped_article1_def)

lemma demo_loads_listft: \<open>json_loads demo_world ''{"ft":["a"]}'' = Inr record_listft\<close>
  by (simp add: demo_world_def demo_loads_def line_article1_def line_article2_def
        dumped_article1_def)


lemma demo_dumps_article1: "json_dumps demo_world record_article1 = dumped_article1"
  by (simp add: demo_world_def demo_dumps_def)

lemma demo_dumps_listft: \<open>json_dumps demo_world record_listft = ''{"ft": ["a"]}''\<close>
  by (simp add: demo_world_def demo_dumps_def) (simp add: record_article1_def record_listft_def)

lemma reduced_article1:
  "article_reduced [(''id'', JStr ''1''), (''ft'', JStr ''hello world''), (''tp'', JStr ''article'')]
   = [(''id'', JStr ''1''), (''ft'', JStr ''hello world''), (''tp'', JStr ''article'')]"
  by (simp add: article_reduced_def kept_key_def)

lemma reduced_listft: "article_reduced [(''ft'', JList [JStr ''a''])] = [(''ft'', JList [JStr ''a''])]"
  by (simp add: article_reduced_def kept_key_def)

lemma demo_readtext_articles:
  "readtext_jsonlines demo_world key_articles bucket0 = ([dumped_article1], None)"
proof -
  have "readtext_loop demo_world [line_article1, line_article2, ''''] = ([dumped_article1], None)"
    by (simp add: line_article1_not_empty line_article2_not_empty yield_def reduced_article1
          demo_loads_article1 [unfolded record_article1_def]
          demo_loads_article2 [unfolded record_article2_def]
          demo_dumps_article1 [unfolded record_article1_def])
  then show ?thesis
    by (simp add: readtext_jsonlines_def demo_fetch_text_articles split_articles)
qed

lemma demo_read_articles:
  "read_jsonlines demo_world key_articles bucket0 = ([line_article1, line_article2], None)"
  by (simp add: read_jsonlines_def demo_fetch_text_articles split_articles read_loop_filter)
     (simp add: line_article1_def line_article2_def)

lemma demo_read_noft:
  \<open>read_jsonlines demo_world key_noft bucket0 = ([''{"id":"x"}'', line_article1], None)\<close>
  by (simp add: read_jsonlines_def demo_fetch_text_noft split_noft read_loop_filter)
     (simp add: line_article1_def)

lemma demo_readtext_noft:
  "readtext_jsonlines demo_world key_noft bucket0 = ([], Some (KeyError ''ft''))"
  by (simp add: readtext_jsonlines_def demo_fetch_text_noft split_noft demo_loads_noft raise_def)

lemma demo_read_listft:
  \<open>read_jsonlines demo_world key_listft bucket0 = ([''{"ft":["a"]}''], None)\<close>
  by (simp add: read_jsonlines_def demo_fetch_text_listft split_listft read_loop_filter)

lemma demo_readtext_listft:
  \<open>readtext_jsonlines demo_world key_listft bucket0 = ([''{"ft": ["a"]}''], None)\<close>
  by (simp add: readtext_jsonlines_def demo_fetch_text_listft split_listft yield_def
        reduced_listft demo_loads_listft [unfolded record_listft_def]
        demo_dumps_listft [unfolded record_listft_def])







lemma demo_fetch_data_empty: "fetch_data demo_world key_empty bucket0 = Inr []"
  by (simp add: demo_fetch_data demo_object_read_def key_plain_def key_articles_def
        key_noft_def key_badjson_def key_listft_def key_uncompressed_def key_noft_badjson_def
        key_empty_def)

lemma demo_decompress_empty: "bz2_decompress demo_world [] = Inr []"
  by (simp add: demo_world_def demo_decompress_def)

lemma demo_decode_empty: "decode_utf8 demo_world [] = Inr ''''"
  by (simp add: demo_world_def demo_decode_def ascii_text_def)

lemma demo_fetch_text_empty: "fetch_text demo_world key_empty bucket0 = Inr ''''"
  by (simp add: fetch_text_def demo_fetch_data_empty demo_decompress_empty demo_decode_empty)

lemma demo_line_ft_article1: "line_ft demo_world line_article1 = Some (JStr ''hello world'')"
  by (simp add: line_ft_def demo_loads_article1 [unfolded record_article1_def])

lemma demo_line_ft_article2: "line_ft demo_world line_article2 = Some (JStr '''')"
  by (simp add: line_ft_def demo_loads_article2 [unfolded record_article2_def])

lemma demo_line_ft_noft: \<open>line_ft demo_world ''{"id":"x"}'' = None\<close>
  by (simp add: line_ft_def demo_loads_noft)

lemma demo_line_ft_listft: \<open>line_ft demo_world ''{"ft":["a"]}'' = Some (JList [JStr ''a''])\<close>
  by (simp add: line_ft_def demo_loads_listft [unfolded record_listft_def])

lemma demo_projected_article1: "projected demo_world line_article1 = dumped_article1"
  by (simp add: projected_def reduced_article1
        demo_loads_article1 [unfolded record_article1_def]
        demo_dumps_article1 [unfolded record_article1_def])

lemma demo_loop_article1:
  "readtext_loop demo_world [line_article1] = ([dumped_article1], None)"
  by (simp add: line_article1_not_empty yield_def reduced_article1
        demo_loads_article1 [unfolded record_article1_def]
        demo_dumps_article1 [unfolded record_article1_def])

lemma kept_keys: "{k. kept_key k} = {''id'', ''s3v'', ''ts'', ''ft'', ''tp'', ''pp'', ''lg'', ''t''}"
  by (auto simp: kept_key_def)



section \<open>\<^verbatim>\<open>read_jsonlines\<close>\<close>

text \<open>
  C1.  When the decompressed, decoded text of the object is the lines \<open>ls\<close> joined by
  newlines (no line holding a newline itself), \<^verbatim>\<open>read_jsonlines\<close> yields exactly the
  lines of \<open>ls\<close> that are not empty, in their order, each once, and ends normally; an
  empty line, the one after a final newline included, yields nothing.  For the text
  \<^verbatim>\<open>{"a":1}\n\n{"a":2}\n\<close> it yields exactly the two strings \<^verbatim>\<open>{"a":1}\<close> and
  \<^verbatim>\<open>{"a":2}\<close>.
\<close>

theorem read_jsonlines_nonempty_lines:
  \<open>(fetch_text W key_name bucket_name = Inr (str_join_nl ls) \<and>
     (\<forall>l \<in> set ls. CHR 0x0A \<notin> set l) \<longrightarrow>
       read_jsonlines W key_name bucket_name = (filter (\<lambda>l. l \<noteq> '''') ls, None))
   \<and> (fetch_text W key_name bucket_name = Inr ''{"a":1}\<newline>\<newline>{"a":2}\<newline>'' \<longrightarrow>
       read_jsonlines W key_name bucket_name = ([''{"a":1}'', ''{"a":2}''], None))\<close>
proof (intro conjI impI)
  assume a: "fetch_text W key_name bucket_name = Inr (str_join_nl ls) \<and>
     (\<forall>l \<in> set ls. CHR 0x0A \<notin> set l)"
  show "read_jsonlines W key_name bucket_name = (filter (\<lambda>l. l \<noteq> '''') ls, None)"
  proof (cases "ls = []")
    case True
    with a show ?thesis
      by (simp add: read_jsonlines_def str_split_nl_def read_loop_filter)
  next
    case False
    with a have "str_split_nl (str_join_nl ls) = ls"
      by (simp add: str_split_join)
    with a show ?thesis
      by (simp add: read_jsonlines_def read_loop_filter)
  qed
next
  assume \<open>fetch_text W key_name bucket_name = Inr ''{"a":1}\<newline>\<newline>{"a":2}\<newline>''\<close>
  then show \<open>read_jsonlines W key_name bucket_name = ([''{"a":1}'', ''{"a":2}''], None)\<close>
    by (simp add: read_jsonlines_def str_split_nl_def yield_def)
qed

theorem read_jsonlines_nonempty_lines_witness:
  \<open>fetch_text demo_world key_plain bucket0 = Inr (str_join_nl [''{"a":1}'', '''', ''{"a":2}'', ''''])
   \<and> list_all (\<lambda>l. CHR 0x0A \<notin> set l) [''{"a":1}'', '''', ''{"a":2}'', '''']
   \<and> fetch_text demo_world key_plain bucket0 = Inr ''{"a":1}\<newline>\<newline>{"a":2}\<newline>''
   \<and> read_jsonlines demo_world key_plain bucket0 = ([''{"a":1}'', ''{"a":2}''], None)\<close>
  using read_jsonlines_nonempty_lines
    [of demo_world key_plain bucket0 \<open>[''{"a":1}'', '''', ''{"a":2}'', '''']\<close>]
  by (simp add: demo_fetch_text_plain join_plain) (simp add: text_plain_def)

text \<open>
  C10.  Every string \<^verbatim>\<open>read_jsonlines\<close> yields is non-empty and holds no newline
  character.
\<close>

theorem read_jsonlines_yields_clean:
  "s \<in> set (fst (read_jsonlines W key_name bucket_name)) \<Longrightarrow> s \<noteq> '''' \<and> CHR 0x0A \<notin> set s"
  by (auto simp: read_jsonlines_def raise_def read_loop_filter str_split_nl_def
      split: sum.splits dest: split_from_no_newline [rotated])

theorem read_jsonlines_yields_clean_witness:
  "line_article1 \<in> set (fst (read_jsonlines demo_world key_articles bucket0))
   \<and> line_article1 \<noteq> '''' \<and> CHR 0x0A \<notin> set line_article1"
proof -
  have "line_article1 \<in> set (fst (read_jsonlines demo_world key_articles bucket0))"
    by (simp add: read_jsonlines_def demo_fetch_text_articles split_articles yield_def)
       (simp add: line_article1_def)
  then show ?thesis
    using read_jsonlines_yields_clean [of line_article1 demo_world key_articles bucket0]
    by simp
qed

section \<open>Failures before the first line\<close>

text \<open>
  C7, as the spec states it, fails: not every blob that is no compressed stream is
  rejected.  An object of zero bytes has no bz2 header, yet \<^verbatim>\<open>bz2.decompress(b'')\<close>
  returns \<^verbatim>\<open>b''\<close> without raising, and both generators end normally having yielded
  nothing: a silent empty result.
\<close>

theorem empty_object_silent:
  "\<not> has_bz2_header []
   \<and> fetch_data demo_world key_empty bucket0 = Inr []
   \<and> bz2_decompress demo_world [] = Inr []
   \<and> read_jsonlines demo_world key_empty bucket0 = ([], None)
   \<and> readtext_jsonlines demo_world key_empty bucket0 = ([], None)"
  by (simp add: has_bz2_header_def demo_fetch_data_empty demo_decompress_empty
        read_jsonlines_def readtext_jsonlines_def demo_fetch_text_empty str_split_nl_def)

text \<open>
  C7, amended.  When \<^verbatim>\<open>bz2.decompress\<close> raises on the bytes retrieved (as it does
  on uncompressed plain text), both \<^verbatim>\<open>read_jsonlines\<close> and \<^verbatim>\<open>readtext_jsonlines\<close>
  end with that exception of the decompression step, having yielded nothing, and so
  do not end normally with an empty sequence.  Bytes that \<^verbatim>\<open>bz2.decompress\<close> accepts
  are not rejected: when it returns empty bytes for them (as it does for the zero-byte
  object) and these decode to the empty text, both generators end normally with an
  empty sequence.
\<close>

theorem decompress_failure_propagates:
  assumes "fetch_data W key_name bucket_name = Inr data"
  shows "(\<forall>e. bz2_decompress W data = Inl e \<longrightarrow>
            read_jsonlines W key_name bucket_name = ([], Some e)
            \<and> readtext_jsonlines W key_name bucket_name = ([], Some e)
            \<and> read_jsonlines W key_name bucket_name \<noteq> ([], None)
            \<and> readtext_jsonlines W key_name bucket_name \<noteq> ([], None))
       \<and> (bz2_decompress W data = Inr [] \<and> decode_utf8 W [] = Inr '''' \<longrightarrow>
            read_jsonlines W key_name bucket_name = ([], None)
            \<and> readtext_jsonlines W key_name bucket_name = ([], None))"
proof (intro conjI allI impI)
  fix e
  assume "bz2_decompress W data = Inl e"
  with assms have failed: "fetch_text W key_name bucket_name = Inl e"
    by (simp add: fetch_text_def)
  then show "read_jsonlines W key_name bucket_name = ([], Some e)"
    and "readtext_jsonlines W key_name bucket_name = ([], Some e)"
    and "read_jsonlines W key_name bucket_name \<noteq> ([], None)"
    and "readtext_jsonlines W key_name bucket_name \<noteq> ([], None)"
    by (simp_all add: read_jsonlines_def readtext_jsonlines_def raise_def)
next
  assume "bz2_decompress W data = Inr [] \<and> decode_utf8 W [] = Inr ''''"
  with assms have empty_text: "fetch_text W key_name bucket_name = Inr ''''"
    by (simp add: fetch_text_def)
  then show "read_jsonlines W key_name bucket_name = ([], None)"
    and "readtext_jsonlines W key_name bucket_name = ([], None)"
    by (simp_all add: read_jsonlines_def readtext_jsonlines_def str_split_nl_def)
qed

theorem decompress_failure_propagates_witness:
  "fetch_data demo_world key_uncompressed bucket0 = Inr (ascii_bytes text_articles)
   \<and> bz2_decompress demo_world (ascii_bytes text_articles) = Inl OSError
   \<and> read_jsonlines demo_world key_uncompressed bucket0 = ([], Some OSError)
   \<and> readtext_jsonlines demo_world key_uncompressed bucket0 = ([], Some OSError)
   \<and> fetch_data demo_world key_empty bucket0 = Inr []
   \<and> bz2_decompress demo_world [] = Inr []
   \<and> decode_utf8 demo_world [] = Inr ''''
   \<and> read_jsonlines demo_world key_empty bucket0 = ([], None)
   \<and> readtext_jsonlines demo_world key_empty bucket0 = ([], None)"
proof -
  have d: "bz2_decompress demo_world (ascii_bytes text_articles) = Inl OSError"
    by (simp add: demo_world_def demo_decompress_uncompressed)
  from decompress_failure_propagates [OF demo_fetch_data_uncompressed] d
  have r1: "read_jsonlines demo_world key_uncompressed bucket0 = ([], Some OSError)"
    "readtext_jsonlines demo_world key_uncompressed bucket0 = ([], Some OSError)"
    by simp_all
  from decompress_failure_propagates [OF demo_fetch_data_empty]
    demo_decompress_empty demo_decode_empty
  have r2: "read_jsonlines demo_world key_empty bucket0 = ([], None)"
    "readtext_jsonlines demo_world key_empty bucket0 = ([], None)"
    by simp_all
  show ?thesis
    by (simp only: demo_fetch_data_uncompressed d r1 demo_fetch_data_empty
          demo_decompress_empty demo_decode_empty r2 simp_thms)
qed

section \<open>A line that is not JSON\<close>




section \<open>Records without full text\<close>

text \<open>
  C2, as the spec states it, fails: a line that parses to a JSON object with no
  \<^verbatim>\<open>ft\<close> key is not omitted silently.  For the archive whose text is
  \<^verbatim>\<open>{"id":"x"}\n{"id":"1","ft":"hello world","tp":"article"}\n\<close> the first line parses
  to an object without \<^verbatim>\<open>ft\<close>, \<^verbatim>\<open>read_jsonlines\<close> yields both lines, and
  \<^verbatim>\<open>readtext_jsonlines\<close> ends with \<^verbatim>\<open>KeyError('ft')\<close> having yielded nothing: the
  second line is never processed.
\<close>

theorem missing_ft_not_silent:
  \<open>json_loads demo_world ''{"id":"x"}'' = Inr (JDict [(''id'', JStr ''x'')])
   \<and> map_of [(''id'', JStr ''x'')] ''ft'' = None
   \<and> read_jsonlines demo_world key_noft bucket0 = ([''{"id":"x"}'', line_article1], None)
   \<and> readtext_jsonlines demo_world key_noft bucket0 = ([], Some (KeyError ''ft''))\<close>
  by (simp add: demo_loads_noft demo_read_noft demo_readtext_noft)

text \<open>
  C2, amended.  At a non-empty line that parses to a JSON object with no \<^verbatim>\<open>ft\<close>
  key, reached after the lines before it were processed without an exception,
  \<^verbatim>\<open>readtext_jsonlines\<close> ends with \<^verbatim>\<open>KeyError('ft')\<close>: what the earlier lines yielded
  stays, nothing is yielded for that line and no later line is processed.  A line whose
  \<^verbatim>\<open>ft\<close> is present and has length 0 is omitted silently: no output for it, no
  exception, and the generator goes on with the lines after it.
\<close>

theorem missing_ft_raises_empty_ft_skipped:
  assumes "fetch_text W key_name bucket_name = Inr text"
    and "str_split_nl text = pre @ line # rest"
    and "line \<noteq> ''''"
    and "json_loads W line = Inr (JDict d)"
    and "readtext_loop W pre = (out, None)"
  shows "(map_of d ''ft'' = None \<longrightarrow>
            readtext_jsonlines W key_name bucket_name = (out, Some (KeyError ''ft'')))
       \<and> (\<forall>txt. map_of d ''ft'' = Some txt \<and> py_len txt = Inr 0 \<longrightarrow>
            readtext_jsonlines W key_name bucket_name
              = (out @ fst (readtext_loop W rest), snd (readtext_loop W rest)))"
proof -
  have run: "readtext_jsonlines W key_name bucket_name
             = (out @ fst (readtext_loop W (line # rest)), snd (readtext_loop W (line # rest)))"
    using assms(1,2,5) by (simp add: readtext_jsonlines_def readtext_loop_append)
  have absent: "readtext_loop W (line # rest) = ([], Some (KeyError ''ft''))"
    if "map_of d ''ft'' = None"
    using that assms(3,4) by (simp add: raise_def)
  have empty: "readtext_loop W (line # rest) = readtext_loop W rest"
    if "map_of d ''ft'' = Some t" "py_len t = Inr 0" for t
    using that assms(3,4) by simp
  show ?thesis
    unfolding run using absent empty by auto
qed

theorem missing_ft_raises_empty_ft_skipped_witness:
  \<open>fetch_text demo_world key_noft bucket0 = Inr text_noft
   \<and> str_split_nl text_noft = [] @ ''{"id":"x"}'' # [line_article1, '''']
   \<and> ''{"id":"x"}'' \<noteq> ''''
   \<and> json_loads demo_world ''{"id":"x"}'' = Inr (JDict [(''id'', JStr ''x'')])
   \<and> readtext_loop demo_world [] = ([], None)
   \<and> map_of [(''id'', JStr ''x'')] ''ft'' = None
   \<and> readtext_jsonlines demo_world key_noft bucket0 = ([], Some (KeyError ''ft''))
   \<and> fetch_text demo_world key_articles bucket0 = Inr text_articles
   \<and> str_split_nl text_articles = [line_article1] @ line_article2 # ['''']
   \<and> line_article2 \<noteq> ''''
   \<and> json_loads demo_world line_article2
        = Inr (JDict [(''id'', JStr ''2''), (''ft'', JStr ''''), (''tp'', JStr ''ad'')])
   \<and> readtext_loop demo_world [line_article1] = ([dumped_article1], None)
   \<and> map_of [(''id'', JStr ''2''), (''ft'', JStr ''''), (''tp'', JStr ''ad'')] ''ft''
        = Some (JStr '''')
   \<and> py_len (JStr '''') = Inr 0
   \<and> readtext_jsonlines demo_world key_articles bucket0 = ([dumped_article1], None)\<close>
proof -
  have s1: \<open>str_split_nl text_noft = [] @ ''{"id":"x"}'' # [line_article1, '''']\<close>
    by (simp add: split_noft)
  have n1: \<open>''{"id":"x"}'' \<noteq> ''''\<close>
    by simp
  have p1: "readtext_loop demo_world [] = ([], None)"
    by simp
  have s2: "str_split_nl text_articles = [line_article1] @ line_article2 # ['''']"
    by (simp add: split_articles)
  note l2 = demo_loads_article2 [unfolded record_article2_def]
  from missing_ft_raises_empty_ft_skipped [OF demo_fetch_text_noft s1 n1 demo_loads_noft p1]
  have r1: "readtext_jsonlines demo_world key_noft bucket0 = ([], Some (KeyError ''ft''))"
    by simp
  from missing_ft_raises_empty_ft_skipped
    [OF demo_fetch_text_articles s2 line_article2_not_empty l2 demo_loop_article1]
  have r2: "readtext_jsonlines demo_world key_articles bucket0 = ([dumped_article1], None)"
    by simp
  have m1: "map_of [(''id'', JStr ''x'')] ''ft'' = None"
    by simp
  have m2: "map_of [(''id'', JStr ''2''), (''ft'', JStr []), (''tp'', JStr ''ad'')] ''ft''
            = Some (JStr [])"
    by simp
  have e2: "py_len (JStr []) = Inr 0"
    by simp
  show ?thesis
    by (simp only: s1 s2 r1 r2 n1 p1 m1 m2 e2 demo_fetch_text_noft demo_fetch_text_articles
          demo_loads_noft l2 line_article2_not_empty demo_loop_article1 simp_thms)
qed

section \<open>The projection as a whole\<close>

text \<open>
  C3, as the spec states it, fails on inputs whose lines all parse as JSON objects.
  In the archive \<^verbatim>\<open>{"id":"x"}\n{"id":"1","ft":"hello world","tp":"article"}\n\<close> one
  line has a non-empty string as \<^verbatim>\<open>ft\<close>, and \<^verbatim>\<open>readtext_jsonlines\<close> yields nothing
  (it ends with \<^verbatim>\<open>KeyError('ft')\<close> at the first line).  In the archive
  \<^verbatim>\<open>{"ft":["a"]}\n\<close> no line has a string as \<^verbatim>\<open>ft\<close>, and \<^verbatim>\<open>readtext_jsonlines\<close>
  yields one string (the list has length 1).
\<close>

theorem projection_not_bijective:
  \<open>read_jsonlines demo_world key_noft bucket0 = ([''{"id":"x"}'', line_article1], None)
   \<and> json_loads demo_world ''{"id":"x"}'' = Inr (JDict [(''id'', JStr ''x'')])
   \<and> json_loads demo_world line_article1 = Inr record_article1
   \<and> filter (ft_nonempty_str demo_world) [''{"id":"x"}'', line_article1] = [line_article1]
   \<and> readtext_jsonlines demo_world key_noft bucket0 = ([], Some (KeyError ''ft''))
   \<and> read_jsonlines demo_world key_listft bucket0 = ([''{"ft":["a"]}''], None)
   \<and> json_loads demo_world ''{"ft":["a"]}'' = Inr record_listft
   \<and> filter (ft_nonempty_str demo_world) [''{"ft":["a"]}''] = []
   \<and> readtext_jsonlines demo_world key_listft bucket0 = ([''{"ft": ["a"]}''], None)\<close>
  by (simp add: demo_read_noft demo_loads_noft demo_loads_article1 demo_readtext_noft
        demo_read_listft demo_loads_listft demo_readtext_listft ft_nonempty_str_def
        demo_line_ft_noft demo_line_ft_article1 demo_line_ft_listft)

text \<open>
  C3, amended.  For every input whose non-empty lines all parse as JSON objects that
  have an \<^verbatim>\<open>ft\<close> key with a string value, \<^verbatim>\<open>readtext_jsonlines\<close> ends normally
  and yields, in order, one string for each line yielded by \<^verbatim>\<open>read_jsonlines\<close>
  whose \<^verbatim>\<open>ft\<close> is a non-empty string (the serialised reduced record of that line);
  a line whose \<^verbatim>\<open>ft\<close> is the empty string yields nothing, so the projected output
  count never exceeds the line count.
\<close>

theorem projection_of_string_ft:
  assumes "fetch_text W key_name bucket_name = Inr text"
    and "\<forall>line \<in> set (fst (read_jsonlines W key_name bucket_name)). ft_is_str W line"
  shows "readtext_jsonlines W key_name bucket_name
           = (map (projected W)
                (filter (ft_nonempty_str W) (fst (read_jsonlines W key_name bucket_name))),
              None)
       \<and> length (fst (readtext_jsonlines W key_name bucket_name))
           \<le> length (fst (read_jsonlines W key_name bucket_name))"
proof -
  have lines: "fst (read_jsonlines W key_name bucket_name)
               = filter (\<lambda>l. l \<noteq> '''') (str_split_nl text)"
    using assms(1) by (simp add: read_jsonlines_def read_loop_filter)
  with assms(2) have "\<forall>line \<in> set (str_split_nl text). line \<noteq> '''' \<longrightarrow> ft_is_str W line"
    by simp
  then have "readtext_loop W (str_split_nl text)
             = (map (projected W) (filter (ft_nonempty_str W)
                  (filter (\<lambda>l. l \<noteq> '''') (str_split_nl text))), None)"
    by (rule readtext_loop_str_ft)
  then have run: "readtext_jsonlines W key_name bucket_name
             = (map (projected W) (filter (ft_nonempty_str W)
                  (fst (read_jsonlines W key_name bucket_name))), None)"
    using assms(1) lines by (simp add: readtext_jsonlines_def)
  show ?thesis
    unfolding run by simp
qed

theorem projection_of_string_ft_witness:
  "fetch_text demo_world key_articles bucket0 = Inr text_articles
   \<and> fst (read_jsonlines demo_world key_articles bucket0) = [line_article1, line_article2]
   \<and> ft_is_str demo_world line_article1
   \<and> ft_is_str demo_world line_article2
   \<and> filter (ft_nonempty_str demo_world) [line_article1, line_article2] = [line_article1]
   \<and> projected demo_world line_article1 = dumped_article1
   \<and> readtext_jsonlines demo_world key_articles bucket0 = ([dumped_article1], None)"
proof -
  have str: "ft_is_str demo_world line_article1" "ft_is_str demo_world line_article2"
    by (simp_all add: ft_is_str_def demo_line_ft_article1 demo_line_ft_article2)
  then have all: "\<forall>line \<in> set (fst (read_jsonlines demo_world key_articles bucket0)).
      ft_is_str demo_world line"
    by (simp add: demo_read_articles)
  have sel: "filter (ft_nonempty_str demo_world) [line_article1, line_article2] = [line_article1]"
    by (simp add: ft_nonempty_str_def demo_line_ft_article1 demo_line_ft_article2)
  show ?thesis
    using projection_of_string_ft [OF demo_fetch_text_articles all] str sel
    by (simp add: demo_fetch_text_articles demo_read_articles demo_projected_article1)
qed

section \<open>What \<^verbatim>\<open>readtext_jsonlines\<close> emits\<close>

text \<open>
  C4.  Every string yielded by \<^verbatim>\<open>readtext_jsonlines\<close> is the serialisation of the
  reduced record of a line yielded by \<^verbatim>\<open>read_jsonlines\<close>; the keys of that
  reduced record are among \<^verbatim>\<open>id, s3v, ts, ft, tp, pp, lg, t\<close>, each with the value
  the source record has for it; and parsing the string gives that reduced record (for
  a \<^verbatim>\<open>json\<close> library that reads back what it wrote).
\<close>

theorem emitted_keys_allow_listed:
  assumes "s \<in> set (fst (readtext_jsonlines W key_name bucket_name))"
  shows "\<exists>line d. line \<in> set (fst (read_jsonlines W key_name bucket_name))
           \<and> json_loads W line = Inr (JDict d)
           \<and> s = json_dumps W (JDict (article_reduced d))
           \<and> fst ` set (article_reduced d)
                \<subseteq> {''id'', ''s3v'', ''ts'', ''ft'', ''tp'', ''pp'', ''lg'', ''t''}
           \<and> (\<forall>k v. map_of (article_reduced d) k = Some v \<longrightarrow> map_of d k = Some v)
           \<and> (json_roundtrip W (JDict (article_reduced d)) \<longrightarrow>
                json_loads W s = Inr (JDict (article_reduced d)))"
proof -
  from assms obtain content where content: "fetch_text W key_name bucket_name = Inr content"
    and s: "s \<in> set (fst (readtext_loop W (str_split_nl content)))"
    by (auto simp: readtext_jsonlines_def raise_def split: sum.splits)
  from readtext_loop_yielded [OF s] obtain line d
    where line: "line \<in> set (str_split_nl content)" "line \<noteq> ''''"
      and d: "json_loads W line = Inr (JDict d)"
      and out: "s = json_dumps W (JDict (article_reduced d))"
    by blast
  have "line \<in> set (fst (read_jsonlines W key_name bucket_name))"
    using content line by (simp add: read_jsonlines_def read_loop_filter)
  moreover have "fst ` set (article_reduced d)
      \<subseteq> {''id'', ''s3v'', ''ts'', ''ft'', ''tp'', ''pp'', ''lg'', ''t''}"
    using keys_article_reduced [of d] by (simp only: kept_keys)
  moreover have "\<forall>k v. map_of (article_reduced d) k = Some v \<longrightarrow> map_of d k = Some v"
    by (simp add: map_of_article_reduced)
  moreover have "json_roundtrip W (JDict (article_reduced d)) \<longrightarrow>
      json_loads W s = Inr (JDict (article_reduced d))"
    by (simp add: json_roundtrip_def out)
  ultimately show ?thesis
    using d out by blast
qed

theorem emitted_keys_allow_listed_witness:
  "dumped_article1 \<in> set (fst (readtext_jsonlines demo_world key_articles bucket0))
   \<and> json_roundtrip demo_world record_article1
   \<and> (\<exists>line d. line \<in> set (fst (read_jsonlines demo_world key_articles bucket0))
           \<and> json_loads demo_world line = Inr (JDict d)
           \<and> dumped_article1 = json_dumps demo_world (JDict (article_reduced d))
           \<and> fst ` set (article_reduced d)
                \<subseteq> {''id'', ''s3v'', ''ts'', ''ft'', ''tp'', ''pp'', ''lg'', ''t''}
           \<and> (\<forall>k v. map_of (article_reduced d) k = Some v \<longrightarrow> map_of d k = Some v)
           \<and> (json_roundtrip demo_world (JDict (article_reduced d)) \<longrightarrow>
                json_loads demo_world dumped_article1 = Inr (JDict (article_reduced d))))"
proof -
  have m: "dumped_article1 \<in> set (fst (readtext_jsonlines demo_world key_articles bucket0))"
    by (simp add: demo_readtext_articles)
  have r: "json_roundtrip demo_world record_article1"
    by (simp add: json_roundtrip_def demo_dumps_article1 demo_loads_dumped)
  from emitted_keys_allow_listed [OF m] m r show ?thesis
    by (intro conjI)
qed

text \<open>
  C9.  Every string yielded by \<^verbatim>\<open>readtext_jsonlines\<close> is the serialisation of an
  object that has the key \<^verbatim>\<open>ft\<close> with a value of non-zero length, and parsing the
  string gives that object (for a \<^verbatim>\<open>json\<close> library that reads back what it wrote):
  the projection never drops the field it filtered on.
\<close>

theorem emitted_record_keeps_ft:
  assumes "s \<in> set (fst (readtext_jsonlines W key_name bucket_name))"
  shows "\<exists>d txt n. s = json_dumps W (JDict d)
           \<and> map_of d ''ft'' = Some txt \<and> py_len txt = Inr n \<and> 0 < n
           \<and> (json_roundtrip W (JDict d) \<longrightarrow> json_loads W s = Inr (JDict d))"
proof -
  from assms obtain content
    where s: "s \<in> set (fst (readtext_loop W (str_split_nl content)))"
    by (auto simp: readtext_jsonlines_def raise_def split: sum.splits)
  from readtext_loop_yielded [OF s] obtain d t n
    where ft: "map_of d ''ft'' = Some t" "py_len t = Inr n" "n \<noteq> 0"
      and out: "s = json_dumps W (JDict (article_reduced d))"
    by blast
  have "map_of (article_reduced d) ''ft'' = Some t"
    using ft(1) by (simp add: map_of_article_reduced kept_key_def)
  moreover have "json_roundtrip W (JDict (article_reduced d)) \<longrightarrow>
      json_loads W s = Inr (JDict (article_reduced d))"
    by (simp add: json_roundtrip_def out)
  ultimately show ?thesis
    using ft(2,3) out by blast
qed

theorem emitted_record_keeps_ft_witness:
  "dumped_article1 \<in> set (fst (readtext_jsonlines demo_world key_articles bucket0))
   \<and> json_loads demo_world dumped_article1 = Inr record_article1
   \<and> (\<exists>d txt n. dumped_article1 = json_dumps demo_world (JDict d)
           \<and> map_of d ''ft'' = Some txt \<and> py_len txt = Inr n \<and> 0 < n
           \<and> (json_roundtrip demo_world (JDict d) \<longrightarrow>
                json_loads demo_world dumped_article1 = Inr (JDict d)))"
proof -
  have m: "dumped_article1 \<in> set (fst (readtext_jsonlines demo_world key_articles bucket0))"
    by (simp add: demo_readtext_articles)
  from emitted_record_keeps_ft [OF m] m demo_loads_dumped show ?thesis
    by (intro conjI)
qed

section \<open>The end-to-end scenario\<close>

text \<open>
  C5.  For the object whose decompressed text is
  \<^verbatim>\<open>{"id":"1","ft":"hello world","tp":"article"}\n{"id":"2","ft":"","tp":"ad"}\n\<close>
  (\<^verbatim>\<open>json.loads\<close> giving the two objects written on its lines),
  \<^verbatim>\<open>read_jsonlines\<close> yields exactly the 2 lines, and \<^verbatim>\<open>readtext_jsonlines\<close> yields
  exactly 1 string, the serialisation of
  \<^verbatim>\<open>{"id":"1","ft":"hello world","tp":"article"}\<close>, which parses to that object
  (for a \<^verbatim>\<open>json\<close> library that reads back what it wrote).
\<close>

theorem end_to_end_scenario:
  assumes \<open>fetch_text W key_name bucket_name =
      Inr ''{"id":"1","ft":"hello world","tp":"article"}\<newline>{"id":"2","ft":"","tp":"ad"}\<newline>''\<close>
    and \<open>json_loads W ''{"id":"1","ft":"hello world","tp":"article"}'' =
      Inr (JDict [(''id'', JStr ''1''), (''ft'', JStr ''hello world''), (''tp'', JStr ''article'')])\<close>
    and \<open>json_loads W ''{"id":"2","ft":"","tp":"ad"}'' =
      Inr (JDict [(''id'', JStr ''2''), (''ft'', JStr ''''), (''tp'', JStr ''ad'')])\<close>
  shows \<open>read_jsonlines W key_name bucket_name =
      ([''{"id":"1","ft":"hello world","tp":"article"}'', ''{"id":"2","ft":"","tp":"ad"}''], None)
    \<and> readtext_jsonlines W key_name bucket_name =
      ([json_dumps W (JDict [(''id'', JStr ''1''), (''ft'', JStr ''hello world''),
          (''tp'', JStr ''article'')])], None)
    \<and> length (fst (read_jsonlines W key_name bucket_name)) = 2
    \<and> length (fst (readtext_jsonlines W key_name bucket_name)) = 1
    \<and> (json_roundtrip W (JDict [(''id'', JStr ''1''), (''ft'', JStr ''hello world''),
          (''tp'', JStr ''article'')]) \<longrightarrow>
        json_loads W (hd (fst (readtext_jsonlines W key_name bucket_name))) =
          Inr (JDict [(''id'', JStr ''1''), (''ft'', JStr ''hello world''),
            (''tp'', JStr ''article'')]))\<close>
proof -
  have split: \<open>str_split_nl
      ''{"id":"1","ft":"hello world","tp":"article"}\<newline>{"id":"2","ft":"","tp":"ad"}\<newline>''
      = [''{"id":"1","ft":"hello world","tp":"article"}'', ''{"id":"2","ft":"","tp":"ad"}'', '''']\<close>
    by (simp add: str_split_nl_def)
  have r: \<open>read_jsonlines W key_name bucket_name =
      ([''{"id":"1","ft":"hello world","tp":"article"}'', ''{"id":"2","ft":"","tp":"ad"}''], None)\<close>
    by (simp add: read_jsonlines_def assms(1) split read_loop_filter)
  have t: \<open>readtext_jsonlines W key_name bucket_name =
      ([json_dumps W (JDict [(''id'', JStr ''1''), (''ft'', JStr ''hello world''),
          (''tp'', JStr ''article'')])], None)\<close>
    by (simp add: readtext_jsonlines_def assms split yield_def reduced_article1)
  show ?thesis
    unfolding r t by (simp add: json_roundtrip_def)
qed

theorem end_to_end_scenario_witness:
  "fetch_text demo_world key_articles bucket0 = Inr text_articles
   \<and> json_loads demo_world line_article1 = Inr record_article1
   \<and> json_loads demo_world line_article2 = Inr record_article2
   \<and> json_roundtrip demo_world record_article1
   \<and> read_jsonlines demo_world key_articles bucket0 = ([line_article1, line_article2], None)
   \<and> readtext_jsonlines demo_world key_articles bucket0 = ([dumped_article1], None)
   \<and> json_loads demo_world dumped_article1 = Inr record_article1"
proof -
  have r: "json_roundtrip demo_world record_article1"
    by (simp add: json_roundtrip_def demo_dumps_article1 demo_loads_dumped)
  note scenario = end_to_end_scenario
    [OF demo_fetch_text_articles [unfolded text_articles_def]
        demo_loads_article1 [unfolded line_article1_def record_article1_def]
        demo_loads_article2 [unfolded line_article2_def record_article2_def]]
  note parsed = scenario [THEN conjunct2, THEN conjunct2, THEN conjunct2, THEN conjunct2,
    THEN mp, OF r [unfolded record_article1_def]]
  note parsed' = parsed [unfolded demo_readtext_articles fst_conv list.sel,
    folded record_article1_def]
  show ?thesis
    by (simp only: demo_fetch_text_articles demo_loads_article1 demo_loads_article2 r
          demo_read_articles demo_readtext_articles parsed' simp_thms)
qed

end
